theory Spec2Isabelle
  imports Complex_Main "HOL-Library.Word"
begin

section \<open>JavaScript values\<close>

text \<open>
  The body of an upstream response, as axios hands it to the handler
  (\<^verbatim>\<open>response.data\<close>, \<^verbatim>\<open>error.response.data\<close>): the parsed JSON value, or
  the raw text as a \<open>JStr\<close> when the body is not JSON. An object is the list of its own
  properties, each key once. A number is a finite IEEE double, embedded in the rationals;
  \<open>0\<close> and \<open>-0\<close> coincide (both are falsy and strictly equal), and JSON text denotes
  no NaN. Strings are byte lists in UTF-8.
\<close>

datatype json =
    JNull
  | JBool bool
  | JNum rat
  | JStr string
  | JArr "json list"
  | JObj "(string \<times> json) list"

text \<open>A JavaScript expression's value: \<open>None\<close> is \<^verbatim>\<open>undefined\<close>.\<close>

type_synonym jsval = "json option"

datatype js_error = TypeError

text \<open>ToBoolean.\<close>

fun truthy :: "json \<Rightarrow> bool" where
  "truthy JNull = False"
| "truthy (JBool b) = b"
| "truthy (JNum n) = (n \<noteq> 0)"
| "truthy (JStr s) = (s \<noteq> [])"
| "truthy (JArr xs) = True"
| "truthy (JObj kvs) = True"

text \<open>
  Property read \<^verbatim>\<open>v.k\<close>, for a name that no prototype defines (the handlers read
  \<^verbatim>\<open>code\<close> and \<^verbatim>\<open>message\<close>): reading from \<^verbatim>\<open>null\<close> throws a
  TypeError, an object yields its own property or \<^verbatim>\<open>undefined\<close>, and a primitive or
  an array yields \<^verbatim>\<open>undefined\<close>.
\<close>

fun get_prop :: "json \<Rightarrow> string \<Rightarrow> js_error + jsval" where
  "get_prop JNull k = Inl TypeError"
| "get_prop (JObj kvs) k = Inr (map_of kvs k)"
| "get_prop (JBool b) k = Inr None"
| "get_prop (JNum n) k = Inr None"
| "get_prop (JStr s) k = Inr None"
| "get_prop (JArr xs) k = Inr None"

text \<open>\<^verbatim>\<open>a || b\<close>, with \<open>b\<close> a defined value.\<close>

definition js_or :: "jsval \<Rightarrow> json \<Rightarrow> json" where
  "js_or a b = (case a of None \<Rightarrow> b | Some v \<Rightarrow> if truthy v then v else b)"

text \<open>\<^verbatim>\<open>s.startsWith(p)\<close>.\<close>

definition startsWith :: "string \<Rightarrow> string \<Rightarrow> bool" where
  "startsWith s p = (take (length p) s = p)"

section \<open>Requests, forms and replies\<close>

text \<open>
  An uploaded file as multer's memory storage presents it (\<^verbatim>\<open>req.file\<close>).
\<close>

record upload =
  originalname :: string
  mimetype :: string
  buffer :: "8 word list"

text \<open>
  A value of \<^verbatim>\<open>req.body\<close>, as multer builds it from the text parts of the request.
  A field with a plain name that occurs once gives a string. A bracketed name
  (\<^verbatim>\<open>url[a]\<close>, \<^verbatim>\<open>model[]\<close>) or a repeated name gives an object or an array, under
  the name before the bracket; \<^verbatim>\<open>form.append\<close> throws when it is given one, and
  \<open>Structured\<close> carries the message of that error.
\<close>

datatype body_value =
    Text string
  | Structured string

text \<open>
  The inbound multipart request: the file part of the field \<^verbatim>\<open>file\<close>, if there is
  one (the request has no other file part), and \<^verbatim>\<open>req.body\<close> as the text parts
  determine it, \<open>None\<close> being \<^verbatim>\<open>undefined\<close>.
\<close>

record inbound =
  file_part :: "upload option"
  text_fields :: "string \<rightharpoonup> body_value"

text \<open>The request as the route handler sees it: \<^verbatim>\<open>req.file\<close> and \<^verbatim>\<open>req.body\<close>.\<close>

record request =
  req_file :: "upload option"
  req_body :: "string \<rightharpoonup> body_value"

text \<open>ToBoolean of \<^verbatim>\<open>req.body.k\<close>: objects and arrays are truthy, also when empty.\<close>

fun truthy_field :: "body_value option \<Rightarrow> bool" where
  "truthy_field None = False"
| "truthy_field (Some (Text s)) = (s \<noteq> [])"
| "truthy_field (Some (Structured m)) = True"

text \<open>
  The outbound multipart form: the parts in the order of the \<^verbatim>\<open>form.append\<close> calls.
  A file part has its field name, content, filename and content type.
\<close>

datatype part =
    FilePart string "8 word list" string string
  | FieldPart string string

type_synonym form = "part list"

fun part_name :: "part \<Rightarrow> string" where
  "part_name (FilePart name content filename contentType) = name"
| "part_name (FieldPart name v) = name"

text \<open>
  Building the form can throw: \<open>Inl m\<close> is the error with message \<open>m\<close>, thrown
  before anything is sent. \<open>then_append\<close> runs two steps in a row; the first error
  ends the building.
\<close>

definition then_append :: "string + form \<Rightarrow> string + form \<Rightarrow> string + form" where
  "then_append a b =
     (case a of
        Inl m \<Rightarrow> Inl m
      | Inr xs \<Rightarrow> (case b of Inl m \<Rightarrow> Inl m | Inr ys \<Rightarrow> Inr (xs @ ys)))"

text \<open>
  \<^verbatim>\<open>form.append(name, v)\<close> for a defined \<open>v\<close> out of \<^verbatim>\<open>req.body\<close>.
\<close>

fun form_append :: "string \<Rightarrow> body_value \<Rightarrow> string + form" where
  "form_append name (Text s) = Inr [FieldPart name s]"
| "form_append name (Structured m) = Inl m"

text \<open>
  \<^verbatim>\<open>if (v !== undefined) { form.append(name, v); }\<close> (lines 65-67, 213-221).
\<close>

definition append_defined :: "string \<Rightarrow> body_value option \<Rightarrow> string + form" where
  "append_defined name v = (case v of None \<Rightarrow> Inr [] | Some x \<Rightarrow> form_append name x)"

text \<open>
  What \<^verbatim>\<open>axios.post\<close> meets: a response with its status and body, no response at all
  (\<^verbatim>\<open>error.request\<close> is set), or a failure before anything was sent; the last two
  carry \<^verbatim>\<open>error.message\<close>. By axios's default \<^verbatim>\<open>validateStatus\<close> the promise is
  fulfilled for a status from 200 to 299 and rejected with \<^verbatim>\<open>error.response\<close>
  for any other.
\<close>

datatype upstream_outcome =
    Responded nat json
  | NoResponse string
  | NotSent string

text \<open>
  The handler's effect on the response: the call \<^verbatim>\<open>res.status(s).json(b)\<close>, or a
  rejected promise when the handler throws inside its own \<^verbatim>\<open>catch\<close> block. The
  result of a request is the reply together with the outbound calls that were made.
\<close>

datatype reply =
    Sent nat json
  | Rejected js_error

record result =
  reply :: reply
  outbound :: "form list"

text \<open>An upstream that meets every call with the same outcome.\<close>

definition upstream_always :: "upstream_outcome \<Rightarrow> form \<Rightarrow> upstream_outcome" where
  "upstream_always x form = x"

section \<open>The user-facing texts\<close>

text \<open>The rejection of \<^verbatim>\<open>fileFilter\<close> (lines 24, 161): only image files may be uploaded.\<close>

definition msg_only_images :: string where
  "msg_only_images =
     [CHR 0xE5, CHR 0x8F, CHR 0xAA, CHR 0xE5, CHR 0x85, CHR 0x81, CHR 0xE8, CHR 0xAE, CHR 0xB8,
      CHR 0xE4, CHR 0xB8, CHR 0x8A, CHR 0xE4, CHR 0xBC, CHR 0xA0, CHR 0xE5, CHR 0x9B, CHR 0xBE,
      CHR 0xE7, CHR 0x89, CHR 0x87, CHR 0xE6, CHR 0x96, CHR 0x87, CHR 0xE4, CHR 0xBB, CHR 0xB6]"

text \<open>Error middleware (lines 131, 333): file size exceeds the limit (at most 5MB).\<close>

definition msg_file_too_large :: string where
  "msg_file_too_large =
     [CHR 0xE6, CHR 0x96, CHR 0x87, CHR 0xE4, CHR 0xBB, CHR 0xB6, CHR 0xE5, CHR 0xA4, CHR 0xA7,
      CHR 0xE5, CHR 0xB0, CHR 0x8F, CHR 0xE8, CHR 0xB6, CHR 0x85, CHR 0xE8, CHR 0xBF, CHR 0x87,
      CHR 0xE9, CHR 0x99, CHR 0x90, CHR 0xE5, CHR 0x88, CHR 0xB6, CHR 0xEF, CHR 0xBC, CHR 0x88,
      CHR 0xE6, CHR 0x9C, CHR 0x80, CHR 0xE5, CHR 0xA4, CHR 0xA7]
     @ ''5MB''
     @ [CHR 0xEF, CHR 0xBC, CHR 0x89]"

text \<open>Error middleware (lines 135, 337): internal server error.\<close>

definition msg_internal_error :: string where
  "msg_internal_error =
     [CHR 0xE6, CHR 0x9C, CHR 0x8D, CHR 0xE5, CHR 0x8A, CHR 0xA1, CHR 0xE5, CHR 0x99, CHR 0xA8,
      CHR 0xE5, CHR 0x86, CHR 0x85, CHR 0xE9, CHR 0x83, CHR 0xA8, CHR 0xE9, CHR 0x94, CHR 0x99,
      CHR 0xE8, CHR 0xAF, CHR 0xAF]"

text \<open>Lines 92, 294: cannot connect to the recognition service, retry later.\<close>

definition msg_unreachable :: string where
  "msg_unreachable =
     [CHR 0xE6, CHR 0x97, CHR 0xA0, CHR 0xE6, CHR 0xB3, CHR 0x95, CHR 0xE8, CHR 0xBF, CHR 0x9E,
      CHR 0xE6, CHR 0x8E, CHR 0xA5, CHR 0xE5, CHR 0x88, CHR 0xB0, CHR 0xE8, CHR 0xAF, CHR 0x86,
      CHR 0xE5, CHR 0x88, CHR 0xAB, CHR 0xE6, CHR 0x9C, CHR 0x8D, CHR 0xE5, CHR 0x8A, CHR 0xA1,
      CHR 0xEF, CHR 0xBC, CHR 0x8C, CHR 0xE8, CHR 0xAF, CHR 0xB7, CHR 0xE7, CHR 0xA8, CHR 0x8D,
      CHR 0xE5, CHR 0x90, CHR 0x8E, CHR 0xE9, CHR 0x87, CHR 0x8D, CHR 0xE8, CHR 0xAF, CHR 0x95]"

text \<open>Lines 97, 299: request configuration error, followed by the error's message.\<close>

definition msg_config_error_prefix :: string where
  "msg_config_error_prefix =
     [CHR 0xE8, CHR 0xAF, CHR 0xB7, CHR 0xE6, CHR 0xB1, CHR 0x82, CHR 0xE9, CHR 0x85, CHR 0x8D,
      CHR 0xE7, CHR 0xBD, CHR 0xAE, CHR 0xE9, CHR 0x94, CHR 0x99, CHR 0xE8, CHR 0xAF, CHR 0xAF]
     @ '': ''"

text \<open>First variant (line 51): please upload an image file.\<close>

definition msg_missing_file :: string where
  "msg_missing_file =
     [CHR 0xE8, CHR 0xAF, CHR 0xB7, CHR 0xE4, CHR 0xB8, CHR 0x8A, CHR 0xE4, CHR 0xBC, CHR 0xA0,
      CHR 0xE5, CHR 0x9B, CHR 0xBE, CHR 0xE7, CHR 0x89, CHR 0x87, CHR 0xE6, CHR 0x96, CHR 0x87,
      CHR 0xE4, CHR 0xBB, CHR 0xB6]"

text \<open>First variant (line 86): recognition service error, followed by the detail.\<close>

definition msg_service_error_prefix :: string where
  "msg_service_error_prefix =
     [CHR 0xE8, CHR 0xAF, CHR 0x86, CHR 0xE5, CHR 0x88, CHR 0xAB, CHR 0xE6, CHR 0x9C, CHR 0x8D,
      CHR 0xE5, CHR 0x8A, CHR 0xA1, CHR 0xE9, CHR 0x94, CHR 0x99, CHR 0xE8, CHR 0xAF, CHR 0xAF]
     @ '': ''"

text \<open>First variant (line 86): unknown error.\<close>

definition msg_unknown_error :: string where
  "msg_unknown_error =
     [CHR 0xE6, CHR 0x9C, CHR 0xAA, CHR 0xE7, CHR 0x9F, CHR 0xA5, CHR 0xE9, CHR 0x94, CHR 0x99,
      CHR 0xE8, CHR 0xAF, CHR 0xAF]"

text \<open>Second variant (line 188): please upload an image file or enter an image URL.\<close>

definition msg_missing_image :: string where
  "msg_missing_image =
     [CHR 0xE8, CHR 0xAF, CHR 0xB7, CHR 0xE4, CHR 0xB8, CHR 0x8A, CHR 0xE4, CHR 0xBC, CHR 0xA0,
      CHR 0xE5, CHR 0x9B, CHR 0xBE, CHR 0xE7, CHR 0x89, CHR 0x87, CHR 0xE6, CHR 0x96, CHR 0x87,
      CHR 0xE4, CHR 0xBB, CHR 0xB6, CHR 0xE6, CHR 0x88, CHR 0x96, CHR 0xE8, CHR 0xBE, CHR 0x93,
      CHR 0xE5, CHR 0x85, CHR 0xA5, CHR 0xE5, CHR 0x9B, CHR 0xBE, CHR 0xE7, CHR 0x89, CHR 0x87]
     @ ''URL''
     @ [CHR 0xE5, CHR 0x9C, CHR 0xB0, CHR 0xE5, CHR 0x9D, CHR 0x80]"

text \<open>Second variant (line 243): recognition service error.\<close>

definition msg_service_error :: string where
  "msg_service_error =
     [CHR 0xE8, CHR 0xAF, CHR 0x86, CHR 0xE5, CHR 0x88, CHR 0xAB, CHR 0xE6, CHR 0x9C, CHR 0x8D,
      CHR 0xE5, CHR 0x8A, CHR 0xA1, CHR 0xE9, CHR 0x94, CHR 0x99, CHR 0xE8, CHR 0xAF, CHR 0xAF]"

text \<open>Line 248: the image is too large, please upload a smaller one.\<close>

definition msg_17701 :: string where
  "msg_17701 =
     [CHR 0xE5, CHR 0x9B, CHR 0xBE, CHR 0xE7, CHR 0x89, CHR 0x87, CHR 0xE5, CHR 0xA4, CHR 0xA7,
      CHR 0xE5, CHR 0xB0, CHR 0x8F, CHR 0xE8, CHR 0xBF, CHR 0x87, CHR 0xE5, CHR 0xA4, CHR 0xA7,
      CHR 0xEF, CHR 0xBC, CHR 0x8C, CHR 0xE8, CHR 0xAF, CHR 0xB7, CHR 0xE4, CHR 0xB8, CHR 0x8A,
      CHR 0xE4, CHR 0xBC, CHR 0xA0, CHR 0xE6, CHR 0x9B, CHR 0xB4, CHR 0xE5, CHR 0xB0, CHR 0x8F,
      CHR 0xE7, CHR 0x9A, CHR 0x84, CHR 0xE5, CHR 0x9B, CHR 0xBE, CHR 0xE7, CHR 0x89, CHR 0x87]"

text \<open>Line 251: server busy, retry later.\<close>

definition msg_17702 :: string where
  "msg_17702 =
     [CHR 0xE6, CHR 0x9C, CHR 0x8D, CHR 0xE5, CHR 0x8A, CHR 0xA1, CHR 0xE5, CHR 0x99, CHR 0xA8,
      CHR 0xE7, CHR 0xB9, CHR 0x81, CHR 0xE5, CHR 0xBF, CHR 0x99, CHR 0xEF, CHR 0xBC, CHR 0x8C,
      CHR 0xE8, CHR 0xAF, CHR 0xB7, CHR 0xE7, CHR 0xA8, CHR 0x8D, CHR 0xE5, CHR 0x90, CHR 0x8E,
      CHR 0xE9, CHR 0x87, CHR 0x8D, CHR 0xE8, CHR 0xAF, CHR 0x95]"

text \<open>Line 254: request parameters incorrect, check the input.\<close>

definition msg_17703 :: string where
  "msg_17703 =
     [CHR 0xE8, CHR 0xAF, CHR 0xB7, CHR 0xE6, CHR 0xB1, CHR 0x82, CHR 0xE5, CHR 0x8F, CHR 0x82,
      CHR 0xE6, CHR 0x95, CHR 0xB0, CHR 0xE4, CHR 0xB8, CHR 0x8D, CHR 0xE6, CHR 0xAD, CHR 0xA3,
      CHR 0xE7, CHR 0xA1, CHR 0xAE, CHR 0xEF, CHR 0xBC, CHR 0x8C, CHR 0xE8, CHR 0xAF, CHR 0xB7,
      CHR 0xE6, CHR 0xA3, CHR 0x80, CHR 0xE6, CHR 0x9F, CHR 0xA5, CHR 0xE8, CHR 0xBE, CHR 0x93,
      CHR 0xE5, CHR 0x85, CHR 0xA5]"

text \<open>Line 257: API under maintenance, retry later.\<close>

definition msg_17704 :: string where
  "msg_17704 =
     ''API''
     @ [CHR 0xE7, CHR 0xBB, CHR 0xB4, CHR 0xE6, CHR 0x8A, CHR 0xA4, CHR 0xE4, CHR 0xB8, CHR 0xAD,
      CHR 0xEF, CHR 0xBC, CHR 0x8C, CHR 0xE8, CHR 0xAF, CHR 0xB7, CHR 0xE7, CHR 0xA8, CHR 0x8D,
      CHR 0xE5, CHR 0x90, CHR 0x8E, CHR 0xE9, CHR 0x87, CHR 0x8D, CHR 0xE8, CHR 0xAF, CHR 0x95]"

text \<open>Line 260: image format unsupported, upload JPG, PNG or GIF.\<close>

definition msg_17705 :: string where
  "msg_17705 =
     [CHR 0xE5, CHR 0x9B, CHR 0xBE, CHR 0xE7, CHR 0x89, CHR 0x87, CHR 0xE6, CHR 0xA0, CHR 0xBC,
      CHR 0xE5, CHR 0xBC, CHR 0x8F, CHR 0xE4, CHR 0xB8, CHR 0x8D, CHR 0xE6, CHR 0x94, CHR 0xAF,
      CHR 0xE6, CHR 0x8C, CHR 0x81, CHR 0xEF, CHR 0xBC, CHR 0x8C, CHR 0xE8, CHR 0xAF, CHR 0xB7,
      CHR 0xE4, CHR 0xB8, CHR 0x8A, CHR 0xE4, CHR 0xBC, CHR 0xA0]
     @ ''JPG''
     @ [CHR 0xE3, CHR 0x80, CHR 0x81]
     @ ''PNG''
     @ [CHR 0xE6, CHR 0x88, CHR 0x96]
     @ ''GIF''
     @ [CHR 0xE6, CHR 0xA0, CHR 0xBC, CHR 0xE5, CHR 0xBC, CHR 0x8F]"

text \<open>Line 263: recognition could not complete, retry.\<close>

definition msg_17706 :: string where
  "msg_17706 =
     [CHR 0xE8, CHR 0xAF, CHR 0x86, CHR 0xE5, CHR 0x88, CHR 0xAB, CHR 0xE6, CHR 0x97, CHR 0xA0,
      CHR 0xE6, CHR 0xB3, CHR 0x95, CHR 0xE5, CHR 0xAE, CHR 0x8C, CHR 0xE6, CHR 0x88, CHR 0x90,
      CHR 0xEF, CHR 0xBC, CHR 0x8C, CHR 0xE8, CHR 0xAF, CHR 0xB7, CHR 0xE9, CHR 0x87, CHR 0x8D,
      CHR 0xE8, CHR 0xAF, CHR 0x95]"

text \<open>Line 266: internal server error, retry.\<close>

definition msg_17707 :: string where
  "msg_17707 =
     [CHR 0xE6, CHR 0x9C, CHR 0x8D, CHR 0xE5, CHR 0x8A, CHR 0xA1, CHR 0xE5, CHR 0x99, CHR 0xA8,
      CHR 0xE5, CHR 0x86, CHR 0x85, CHR 0xE9, CHR 0x83, CHR 0xA8, CHR 0xE9, CHR 0x94, CHR 0x99,
      CHR 0xE8, CHR 0xAF, CHR 0xAF, CHR 0xEF, CHR 0xBC, CHR 0x8C, CHR 0xE8, CHR 0xAF, CHR 0xB7,
      CHR 0xE9, CHR 0x87, CHR 0x8D, CHR 0xE8, CHR 0xAF, CHR 0x95]"

text \<open>Line 269: too many characters in the image.\<close>

definition msg_17708 :: string where
  "msg_17708 =
     [CHR 0xE5, CHR 0x9B, CHR 0xBE, CHR 0xE7, CHR 0x89, CHR 0x87, CHR 0xE4, CHR 0xB8, CHR 0xAD,
      CHR 0xE7, CHR 0x9A, CHR 0x84, CHR 0xE4, CHR 0xBA, CHR 0xBA, CHR 0xE7, CHR 0x89, CHR 0xA9,
      CHR 0xE6, CHR 0x95, CHR 0xB0, CHR 0xE9, CHR 0x87, CHR 0x8F, CHR 0xE8, CHR 0xB6, CHR 0x85,
      CHR 0xE8, CHR 0xBF, CHR 0x87, CHR 0xE9, CHR 0x99, CHR 0x90, CHR 0xE5, CHR 0x88, CHR 0xB6]"

text \<open>Line 272: image download failed, check the image URL.\<close>

definition msg_17722 :: string where
  "msg_17722 =
     [CHR 0xE5, CHR 0x9B, CHR 0xBE, CHR 0xE7, CHR 0x89, CHR 0x87, CHR 0xE4, CHR 0xB8, CHR 0x8B,
      CHR 0xE8, CHR 0xBD, CHR 0xBD, CHR 0xE5, CHR 0xA4, CHR 0xB1, CHR 0xE8, CHR 0xB4, CHR 0xA5,
      CHR 0xEF, CHR 0xBC, CHR 0x8C, CHR 0xE8, CHR 0xAF, CHR 0xB7, CHR 0xE6, CHR 0xA3, CHR 0x80,
      CHR 0xE6, CHR 0x9F, CHR 0xA5, CHR 0xE5, CHR 0x9B, CHR 0xBE, CHR 0xE7, CHR 0x89, CHR 0x87]
     @ ''URL''"

text \<open>Line 275: usage limit reached, try again later.\<close>

definition msg_17728 :: string where
  "msg_17728 =
     [CHR 0xE5, CHR 0xB7, CHR 0xB2, CHR 0xE8, CHR 0xBE, CHR 0xBE, CHR 0xE5, CHR 0x88, CHR 0xB0,
      CHR 0xE6, CHR 0x9C, CHR 0xAC, CHR 0xE6, CHR 0xAC, CHR 0xA1, CHR 0xE4, CHR 0xBD, CHR 0xBF,
      CHR 0xE7, CHR 0x94, CHR 0xA8, CHR 0xE4, CHR 0xB8, CHR 0x8A, CHR 0xE9, CHR 0x99, CHR 0x90,
      CHR 0xEF, CHR 0xBC, CHR 0x8C, CHR 0xE8, CHR 0xAF, CHR 0xB7, CHR 0xE7, CHR 0xA8, CHR 0x8D,
      CHR 0xE5, CHR 0x90, CHR 0x8E, CHR 0xE5, CHR 0x86, CHR 0x8D, CHR 0xE8, CHR 0xAF, CHR 0x95]"

text \<open>Line 278: too many users, try again.\<close>

definition msg_17731 :: string where
  "msg_17731 =
     [CHR 0xE6, CHR 0x9C, CHR 0x8D, CHR 0xE5, CHR 0x8A, CHR 0xA1, CHR 0xE5, CHR 0x88, CHR 0xA9,
      CHR 0xE7, CHR 0x94, CHR 0xA8, CHR 0xE4, CHR 0xBA, CHR 0xBA, CHR 0xE6, CHR 0x95, CHR 0xB0,
      CHR 0xE8, CHR 0xBF, CHR 0x87, CHR 0xE5, CHR 0xA4, CHR 0x9A, CHR 0xEF, CHR 0xBC, CHR 0x8C,
      CHR 0xE8, CHR 0xAF, CHR 0xB7, CHR 0xE9, CHR 0x87, CHR 0x8D, CHR 0xE6, CHR 0x96, CHR 0xB0,
      CHR 0xE5, CHR 0xB0, CHR 0x9D, CHR 0xE8, CHR 0xAF, CHR 0x95]"

section \<open>Upload intake: the multer middleware\<close>

text \<open>\<^verbatim>\<open>limits.fileSize\<close> (lines 17, 154), in bytes.\<close>

definition fileSize :: nat where
  "fileSize = 5 * 1024 * 1024"

datatype middleware_error =
    MulterError string
  | Error string

text \<open>
  \<^verbatim>\<open>fileFilter\<close> (lines 19-26, 156-163): \<open>Inr True\<close> is \<^verbatim>\<open>cb(null, true)\<close>, \<open>Inl e\<close> is
  \<^verbatim>\<open>cb(e)\<close>.
\<close>

definition fileFilter :: "upload \<Rightarrow> middleware_error + bool" where
  "fileFilter f =
     (if startsWith (mimetype f) ''image/'' then Inr True
      else Inl (Error msg_only_images))"

text \<open>
  \<^verbatim>\<open>upload.single('file')\<close>. Multer drops a file part whose filename is empty
  before anything else, and the handler runs without \<^verbatim>\<open>req.file\<close>. For any other
  file part it calls the filter when the part begins, before any of its content is
  stored; an error of the filter aborts the upload and goes to \<^verbatim>\<open>next\<close>. A file
  that the filter accepts and that is longer than \<^verbatim>\<open>limits.fileSize\<close> aborts the
  upload with the MulterError \<^verbatim>\<open>LIMIT_FILE_SIZE\<close>. Otherwise the handler runs with
  \<^verbatim>\<open>req.file\<close> and \<^verbatim>\<open>req.body\<close>.
\<close>

definition upload_single :: "inbound \<Rightarrow> middleware_error + request" where
  "upload_single r =
     (case file_part r of
        None \<Rightarrow> Inr \<lparr>req_file = None, req_body = text_fields r\<rparr>
      | Some f \<Rightarrow>
          if originalname f = [] then Inr \<lparr>req_file = None, req_body = text_fields r\<rparr>
          else
            (case fileFilter f of
               Inl e \<Rightarrow> Inl e
             | Inr False \<Rightarrow> Inr \<lparr>req_file = None, req_body = text_fields r\<rparr>
             | Inr True \<Rightarrow>
                 if fileSize < length (buffer f) then Inl (MulterError ''LIMIT_FILE_SIZE'')
                 else Inr \<lparr>req_file = Some f, req_body = text_fields r\<rparr>))"

text \<open>The error-handling middleware (lines 128-136, 330-338).\<close>

definition error_middleware :: "middleware_error \<Rightarrow> reply" where
  "error_middleware e =
     (case e of
        MulterError code \<Rightarrow>
          if code = ''LIMIT_FILE_SIZE''
          then Sent 400 (JObj [(''error'', JStr msg_file_too_large)])
          else Sent 500 (JObj [(''error'', JStr msg_internal_error)])
      | Error m \<Rightarrow> Sent 500 (JObj [(''error'', JStr msg_internal_error)]))"

section \<open>The first variant of the handler (lines 47-101)\<close>

text \<open>Lines 58-67, with \<^verbatim>\<open>req.file\<close> present.\<close>

definition build_form_v1 :: "upload \<Rightarrow> request \<Rightarrow> string + form" where
  "build_form_v1 f req =
     then_append (Inr [FilePart ''file'' (buffer f) (originalname f) (mimetype f)])
       (append_defined ''use_correction'' (req_body req ''use_correction''))"

text \<open>
  Line 86: the template literal applies ToString to
  \<^verbatim>\<open>error.response.data.message || '...'\<close>. A string is itself; ToString of the other
  values is the parameter \<open>to_string\<close>.
\<close>

definition service_error_text :: "(json \<Rightarrow> string) \<Rightarrow> json \<Rightarrow> js_error + string" where
  "service_error_text to_string data =
     (case get_prop data ''message'' of
        Inl e \<Rightarrow> Inl e
      | Inr m \<Rightarrow>
          Inr (msg_service_error_prefix @
               (case js_or m (JStr msg_unknown_error) of
                  JStr s \<Rightarrow> s
                | v \<Rightarrow> to_string v)))"

text \<open>
  The handler. An error thrown while the form is built is caught by the handler's
  \<^verbatim>\<open>catch\<close>; it has neither \<^verbatim>\<open>response\<close> nor \<^verbatim>\<open>request\<close>, and no call is made.
\<close>

definition recognize_v1 ::
  "(json \<Rightarrow> string) \<Rightarrow> (form \<Rightarrow> upstream_outcome) \<Rightarrow> request \<Rightarrow> result" where
  "recognize_v1 to_string axios_post req =
     (case req_file req of
        None \<Rightarrow> \<lparr>reply = Sent 400 (JObj [(''error'', JStr msg_missing_file)]), outbound = []\<rparr>
      | Some f \<Rightarrow>
          (case build_form_v1 f req of
             Inl m \<Rightarrow>
               \<lparr>reply = Sent 500 (JObj [(''error'', JStr (msg_config_error_prefix @ m))]),
                outbound = []\<rparr>
           | Inr form \<Rightarrow>
               \<lparr>reply =
                  (case axios_post form of
                     Responded status data \<Rightarrow>
                       if 200 \<le> status \<and> status < 300 then Sent 200 data
                       else (case service_error_text to_string data of
                               Inl e \<Rightarrow> Rejected e
                             | Inr m \<Rightarrow>
                                 Sent status (JObj [(''error'', JStr m), (''details'', data)]))
                   | NoResponse m \<Rightarrow> Sent 500 (JObj [(''error'', JStr msg_unreachable)])
                   | NotSent m \<Rightarrow>
                       Sent 500 (JObj [(''error'', JStr (msg_config_error_prefix @ m))])),
                outbound = [form]\<rparr>))"

section \<open>The second variant of the handler (lines 184-303)\<close>

text \<open>
  Lines 200-210: the file when there is one, else the URL when it is truthy. The handler
  has checked before that one of the two is there.
\<close>

definition attach_image :: "request \<Rightarrow> string + form" where
  "attach_image req =
     (case req_file req of
        Some f \<Rightarrow> Inr [FilePart ''file'' (buffer f) (originalname f) (mimetype f)]
      | None \<Rightarrow>
          (case req_body req ''url'' of
             None \<Rightarrow> Inr []
           | Some u \<Rightarrow> if truthy_field (Some u) then form_append ''url'' u else Inr []))"

text \<open>Lines 198-221.\<close>

definition build_form_v2 :: "request \<Rightarrow> string + form" where
  "build_form_v2 req =
     then_append (attach_image req)
       (then_append (append_defined ''is_multi'' (req_body req ''is_multi''))
          (then_append (append_defined ''model'' (req_body req ''model''))
             (append_defined ''ai_detect'' (req_body req ''ai_detect''))))"

text \<open>
  The \<^verbatim>\<open>switch\<close> of lines 246-282: the text of the case that is strictly equal to the
  code, \<open>None\<close> for the \<^verbatim>\<open>default\<close> branch.
\<close>

definition switch_code :: "json \<Rightarrow> string option" where
  "switch_code c =
     (if c = JNum 17701 then Some msg_17701
      else if c = JNum 17702 then Some msg_17702
      else if c = JNum 17703 then Some msg_17703
      else if c = JNum 17704 then Some msg_17704
      else if c = JNum 17705 then Some msg_17705
      else if c = JNum 17706 then Some msg_17706
      else if c = JNum 17707 then Some msg_17707
      else if c = JNum 17708 then Some msg_17708
      else if c = JNum 17722 then Some msg_17722
      else if c = JNum 17728 then Some msg_17728
      else if c = JNum 17731 then Some msg_17731
      else None)"

text \<open>
  \<^verbatim>\<open>data.message || errorMessage\<close> (lines 281, 284), where \<^verbatim>\<open>errorMessage\<close> still
  has its initial value of line 243.
\<close>

definition message_or_default :: "json \<Rightarrow> js_error + json" where
  "message_or_default data =
     (case get_prop data ''message'' of
        Inl e \<Rightarrow> Inl e
      | Inr m \<Rightarrow> Inr (js_or m (JStr msg_service_error)))"

text \<open>
  Lines 243-285: the final value of \<^verbatim>\<open>errorMessage\<close>, or the TypeError of reading
  \<^verbatim>\<open>null.message\<close>. The guard \<^verbatim>\<open>data && data.code\<close> reads the code only of a truthy
  \<^verbatim>\<open>data\<close>.
\<close>

definition upstream_error_message :: "json \<Rightarrow> js_error + json" where
  "upstream_error_message data =
     (if truthy data then
        (case get_prop data ''code'' of
           Inl e \<Rightarrow> Inl e
         | Inr None \<Rightarrow> message_or_default data
         | Inr (Some c) \<Rightarrow>
             if truthy c then
               (case switch_code c of
                  Some m \<Rightarrow> Inr (JStr m)
                | None \<Rightarrow> message_or_default data)
             else message_or_default data)
      else message_or_default data)"

text \<open>
  The handler. An error thrown while the form is built is caught by the handler's
  \<^verbatim>\<open>catch\<close>; it has neither \<^verbatim>\<open>response\<close> nor \<^verbatim>\<open>request\<close>, and no call is made.
\<close>

definition recognize_v2 :: "(form \<Rightarrow> upstream_outcome) \<Rightarrow> request \<Rightarrow> result" where
  "recognize_v2 axios_post req =
     (if req_file req = None \<and> \<not> truthy_field (req_body req ''url'')
      then \<lparr>reply = Sent 400 (JObj [(''error'', JStr msg_missing_image)]), outbound = []\<rparr>
      else
        (case build_form_v2 req of
           Inl m \<Rightarrow>
             \<lparr>reply = Sent 500 (JObj [(''error'', JStr (msg_config_error_prefix @ m))]),
              outbound = []\<rparr>
         | Inr form \<Rightarrow>
             \<lparr>reply =
                (case axios_post form of
                   Responded status data \<Rightarrow>
                     if 200 \<le> status \<and> status < 300 then Sent 200 data
                     else (case upstream_error_message data of
                             Inl e \<Rightarrow> Rejected e
                           | Inr m \<Rightarrow> Sent status (JObj [(''error'', m), (''details'', data)]))
                 | NoResponse m \<Rightarrow> Sent 500 (JObj [(''error'', JStr msg_unreachable)])
                 | NotSent m \<Rightarrow>
                     Sent 500 (JObj [(''error'', JStr (msg_config_error_prefix @ m))])),
              outbound = [form]\<rparr>))"

section \<open>The endpoint\<close>

text \<open>\<^verbatim>\<open>app.post('/api/recognize', upload.single('file'), handler)\<close> and the error middleware.\<close>

definition endpoint_v1 ::
  "(json \<Rightarrow> string) \<Rightarrow> (form \<Rightarrow> upstream_outcome) \<Rightarrow> inbound \<Rightarrow> result" where
  "endpoint_v1 to_string axios_post r =
     (case upload_single r of
        Inl e \<Rightarrow> \<lparr>reply = error_middleware e, outbound = []\<rparr>
      | Inr req \<Rightarrow> recognize_v1 to_string axios_post req)"

definition endpoint_v2 :: "(form \<Rightarrow> upstream_outcome) \<Rightarrow> inbound \<Rightarrow> result" where
  "endpoint_v2 axios_post r =
     (case upload_single r of
        Inl e \<Rightarrow> \<lparr>reply = error_middleware e, outbound = []\<rparr>
      | Inr req \<Rightarrow> recognize_v2 axios_post req)"

section \<open>The response on the wire\<close>



section \<open>JSON text\<close>

text \<open>
  The bytes of a body. \<open>JSON_parse\<close> is \<^verbatim>\<open>JSON.parse\<close>, which axios applies to the
  upstream's body; \<open>JSON_stringify\<close> is \<^verbatim>\<open>JSON.stringify\<close>, which \<^verbatim>\<open>res.json\<close>
  applies to its argument. Both are given on a part of JSON, and are \<open>None\<close> outside
  it: strings without escapes, integers up to \<open>2 ^ 53\<close> in size, and objects whose
  keys are distinct and not made of digits (JavaScript moves such keys to the front).
\<close>

definition is_ws :: "char \<Rightarrow> bool" where
  "is_ws c = (c = CHR '' '' \<or> c = CHR 0x09 \<or> c = CHR 0x0A \<or> c = CHR 0x0D)"

definition skip_ws :: "string \<Rightarrow> string" where
  "skip_ws s = dropWhile is_ws s"

definition is_digit :: "char \<Rightarrow> bool" where
  "is_digit c = (48 \<le> (of_char c :: nat) \<and> (of_char c :: nat) \<le> 57)"

definition plain_char :: "char \<Rightarrow> bool" where
  "plain_char c = (32 \<le> (of_char c :: nat) \<and> c \<noteq> CHR 0x22 \<and> c \<noteq> CHR 0x5C)"

text \<open>The characters of a string up to its closing quote, and the rest.\<close>

fun parse_string :: "string \<Rightarrow> (string \<times> string) option" where
  "parse_string [] = None"
| "parse_string (c # cs) =
     (if c = CHR 0x22 then Some ([], cs)
      else if plain_char c then
        (case parse_string cs of None \<Rightarrow> None | Some (s, rest) \<Rightarrow> Some (c # s, rest))
      else None)"

definition digit_value :: "char \<Rightarrow> int" where
  "digit_value c = of_char c - 48"

definition parse_nat :: "string \<Rightarrow> (int \<times> string) option" where
  "parse_nat s =
     (let ds = takeWhile is_digit s; rest = dropWhile is_digit s in
      if ds = [] \<or> (hd ds = CHR ''0'' \<and> tl ds \<noteq> []) then None
      else if rest \<noteq> [] \<and> (hd rest = CHR ''.'' \<or> hd rest = CHR ''e'' \<or> hd rest = CHR ''E'')
        then None
      else let n = foldl (\<lambda>a c. 10 * a + digit_value c) 0 ds in
        if n \<le> 9007199254740992 then Some (n, rest) else None)"

definition key_allowed :: "string \<Rightarrow> (string \<times> json) list \<Rightarrow> bool" where
  "key_allowed k kvs = (k \<notin> set (map fst kvs) \<and> \<not> (k \<noteq> [] \<and> list_all is_digit k))"

text \<open>
  The recursive descent, with fuel: \<open>parse_value\<close> reads one value,
  \<open>parse_elems\<close> the elements of an array after its bracket, \<open>parse_members\<close> the
  members of an object after its brace.
\<close>

fun parse_value :: "nat \<Rightarrow> string \<Rightarrow> (json \<times> string) option"
  and parse_elems :: "nat \<Rightarrow> string \<Rightarrow> (json list \<times> string) option"
  and parse_members :: "nat \<Rightarrow> string \<Rightarrow> ((string \<times> json) list \<times> string) option"
where
  "parse_value 0 s = None"
| "parse_value (Suc n) s =
     (case skip_ws s of
        [] \<Rightarrow> None
      | c # cs \<Rightarrow>
          if c = CHR 0x7B then
            (if skip_ws cs \<noteq> [] \<and> hd (skip_ws cs) = CHR 0x7D then Some (JObj [], tl (skip_ws cs))
             else (case parse_members n cs of
                     None \<Rightarrow> None
                   | Some (kvs, rest) \<Rightarrow> Some (JObj kvs, rest)))
          else if c = CHR 0x5B then
            (if skip_ws cs \<noteq> [] \<and> hd (skip_ws cs) = CHR 0x5D then Some (JArr [], tl (skip_ws cs))
             else (case parse_elems n cs of
                     None \<Rightarrow> None
                   | Some (xs, rest) \<Rightarrow> Some (JArr xs, rest)))
          else if c = CHR 0x22 then
            (case parse_string cs of
               None \<Rightarrow> None
             | Some (str, rest) \<Rightarrow> Some (JStr str, rest))
          else if take 4 (c # cs) = ''true'' then Some (JBool True, drop 4 (c # cs))
          else if take 5 (c # cs) = ''false'' then Some (JBool False, drop 5 (c # cs))
          else if take 4 (c # cs) = ''null'' then Some (JNull, drop 4 (c # cs))
          else if c = CHR ''-'' then
            (case parse_nat cs of
               None \<Rightarrow> None
             | Some (m, rest) \<Rightarrow> Some (JNum (- of_int m), rest))
          else
            (case parse_nat (c # cs) of
               None \<Rightarrow> None
             | Some (m, rest) \<Rightarrow> Some (JNum (of_int m), rest)))"
| "parse_elems 0 s = None"
| "parse_elems (Suc n) s =
     (case parse_value n s of
        None \<Rightarrow> None
      | Some (x, rest) \<Rightarrow>
          (case skip_ws rest of
             [] \<Rightarrow> None
           | d # tail \<Rightarrow>
               if d = CHR 0x5D then Some ([x], tail)
               else if d = CHR '','' then
                 (case parse_elems n tail of
                    None \<Rightarrow> None
                  | Some (xs, rest') \<Rightarrow> Some (x # xs, rest'))
               else None))"
| "parse_members 0 s = None"
| "parse_members (Suc n) s =
     (case skip_ws s of
        [] \<Rightarrow> None
      | q # cs \<Rightarrow>
          if q \<noteq> CHR 0x22 then None
          else
            (case parse_string cs of
               None \<Rightarrow> None
             | Some (k, rest) \<Rightarrow>
                 (case skip_ws rest of
                    [] \<Rightarrow> None
                  | colon # after \<Rightarrow>
                      if colon \<noteq> CHR '':'' then None
                      else
                        (case parse_value n after of
                           None \<Rightarrow> None
                         | Some (v, rest') \<Rightarrow>
                             (case skip_ws rest' of
                                [] \<Rightarrow> None
                              | d # tail \<Rightarrow>
                                  if d = CHR 0x7D then
                                    (if key_allowed k [] then Some ([(k, v)], tail) else None)
                                  else if d = CHR '','' then
                                    (case parse_members n tail of
                                       None \<Rightarrow> None
                                     | Some (kvs, rest'') \<Rightarrow>
                                         if key_allowed k kvs then Some ((k, v) # kvs, rest'')
                                         else None)
                                  else None)))))"







section \<open>Facts about the form builders and the endpoint\<close>

lemma then_append_Inr:
  "then_append a b = Inr form \<longleftrightarrow> (\<exists>xs ys. a = Inr xs \<and> b = Inr ys \<and> form = xs @ ys)"
  by (cases a; cases b) (auto simp add: then_append_def)

lemma append_defined_Inr:
  "append_defined name x = Inr ps \<longleftrightarrow>
     (x = None \<and> ps = []) \<or> (\<exists>s. x = Some (Text s) \<and> ps = [FieldPart name s])"
proof (cases x)
  case None
  then show ?thesis by (auto simp add: append_defined_def)
next
  case (Some y)
  then show ?thesis by (cases y) (auto simp add: append_defined_def)
qed

lemma mem_append_defined:
  "append_defined name x = Inr ps \<Longrightarrow>
     FieldPart k v \<in> set ps \<longleftrightarrow> k = name \<and> x = Some (Text v)"
  unfolding append_defined_Inr by auto

lemma names_append_defined:
  "append_defined name x = Inr ps \<Longrightarrow> ps = [] \<or> map part_name ps = [name]"
  unfolding append_defined_Inr by auto

lemma attach_image_Inr:
  "attach_image req = Inr ps \<longleftrightarrow>
     (\<exists>f. req_file req = Some f \<and> ps = [FilePart ''file'' (buffer f) (originalname f) (mimetype f)])
     \<or> (req_file req = None \<and> \<not> truthy_field (req_body req ''url'') \<and> ps = [])
     \<or> (\<exists>u. req_file req = None \<and> req_body req ''url'' = Some (Text u) \<and> u \<noteq> []
            \<and> ps = [FieldPart ''url'' u])"
proof (cases "req_file req")
  case (Some f)
  then show ?thesis by (auto simp add: attach_image_def)
next
  case None
  show ?thesis
  proof (cases "req_body req ''url''")
    case None
    with \<open>req_file req = None\<close> show ?thesis by (auto simp add: attach_image_def)
  next
    case (Some y)
    with \<open>req_file req = None\<close> show ?thesis
      by (cases y) (auto simp add: attach_image_def)
  qed
qed

lemma mem_attach_image:
  "attach_image req = Inr ps \<Longrightarrow>
     FieldPart k v \<in> set ps \<longleftrightarrow>
       k = ''url'' \<and> req_file req = None \<and> req_body req ''url'' = Some (Text v) \<and> v \<noteq> []"
  unfolding attach_image_Inr by auto

lemma names_attach_image:
  "attach_image req = Inr ps \<Longrightarrow>
     ps = [] \<or> map part_name ps = [''file''] \<or> map part_name ps = [''url'']"
  unfolding attach_image_Inr by auto

lemma build_form_v2_Inr:
  assumes "build_form_v2 req = Inr form"
  obtains a b c d where "attach_image req = Inr a"
    and "append_defined ''is_multi'' (req_body req ''is_multi'') = Inr b"
    and "append_defined ''model'' (req_body req ''model'') = Inr c"
    and "append_defined ''ai_detect'' (req_body req ''ai_detect'') = Inr d"
    and "form = a @ b @ c @ d"
  using assms unfolding build_form_v2_def then_append_Inr by blast

lemma build_form_v1_Inr:
  assumes "build_form_v1 f req = Inr form"
  obtains b where "append_defined ''use_correction'' (req_body req ''use_correction'') = Inr b"
    and "form = FilePart ''file'' (buffer f) (originalname f) (mimetype f) # b"
  using assms unfolding build_form_v1_def then_append_Inr by auto

lemma fields_build_form_v2:
  assumes "build_form_v2 req = Inr form"
  shows "FieldPart k v \<in> set form \<longleftrightarrow>
     (k = ''url'' \<and> req_file req = None \<and> req_body req ''url'' = Some (Text v) \<and> v \<noteq> []) \<or>
     ((k = ''is_multi'' \<or> k = ''model'' \<or> k = ''ai_detect'') \<and> req_body req k = Some (Text v))"
proof -
  obtain a b c d where parts: "attach_image req = Inr a"
    "append_defined ''is_multi'' (req_body req ''is_multi'') = Inr b"
    "append_defined ''model'' (req_body req ''model'') = Inr c"
    "append_defined ''ai_detect'' (req_body req ''ai_detect'') = Inr d"
    and form: "form = a @ b @ c @ d"
    using assms by (rule build_form_v2_Inr)
  show ?thesis
    unfolding form set_append Un_iff mem_attach_image [OF parts(1)]
      mem_append_defined [OF parts(2)] mem_append_defined [OF parts(3)]
      mem_append_defined [OF parts(4)]
    by blast
qed

lemma distinct_build_form_v2:
  assumes "build_form_v2 req = Inr form"
  shows "distinct (map part_name form)"
proof -
  obtain a b c d where parts: "attach_image req = Inr a"
    "append_defined ''is_multi'' (req_body req ''is_multi'') = Inr b"
    "append_defined ''model'' (req_body req ''model'') = Inr c"
    "append_defined ''ai_detect'' (req_body req ''ai_detect'') = Inr d"
    and form: "form = a @ b @ c @ d"
    using assms by (rule build_form_v2_Inr)
  show ?thesis
    using names_attach_image [OF parts(1)] names_append_defined [OF parts(2)]
      names_append_defined [OF parts(3)] names_append_defined [OF parts(4)]
    unfolding form by (elim disjE) simp_all
qed

lemma fields_build_form_v1:
  assumes "build_form_v1 f req = Inr form"
  shows "FieldPart k v \<in> set form \<longleftrightarrow>
     k = ''use_correction'' \<and> req_body req k = Some (Text v)"
proof -
  obtain b where parts: "append_defined ''use_correction'' (req_body req ''use_correction'') = Inr b"
    and form: "form = FilePart ''file'' (buffer f) (originalname f) (mimetype f) # b"
    using assms by (rule build_form_v1_Inr)
  show ?thesis
    unfolding form using mem_append_defined [OF parts] by auto
qed

lemma distinct_build_form_v1:
  assumes "build_form_v1 f req = Inr form"
  shows "distinct (map part_name form)"
proof -
  obtain b where parts: "append_defined ''use_correction'' (req_body req ''use_correction'') = Inr b"
    and form: "form = FilePart ''file'' (buffer f) (originalname f) (mimetype f) # b"
    using assms by (rule build_form_v1_Inr)
  show ?thesis
    using names_append_defined [OF parts] unfolding form by auto
qed

lemma upload_single_body:
  "upload_single r = Inr req \<Longrightarrow> req_body req = text_fields r"
  by (auto simp add: upload_single_def split: option.splits sum.splits bool.splits if_splits)

text \<open>An outbound call comes from a request that passed the intake and the handler's guard.\<close>

lemma endpoint_v2_outbound:
  assumes "outbound (endpoint_v2 axios_post r) = [form]"
  shows "\<exists>req. upload_single r = Inr req \<and> build_form_v2 req = Inr form"
  using assms
  by (auto simp add: endpoint_v2_def recognize_v2_def split: sum.splits if_splits)

lemma endpoint_v1_outbound:
  assumes "outbound (endpoint_v1 to_string axios_post r) = [form]"
  shows "\<exists>req f. upload_single r = Inr req \<and> req_file req = Some f \<and> build_form_v1 f req = Inr form"
  using assms
  by (auto simp add: endpoint_v1_def recognize_v1_def split: sum.splits option.splits)

text \<open>Once the call is made, the reply is decided by its outcome alone.\<close>

lemma endpoint_v2_called:
  assumes "outbound (endpoint_v2 axios_post r) = [form]"
  shows "reply (endpoint_v2 axios_post r) =
     (case axios_post form of
        Responded status data \<Rightarrow>
          if 200 \<le> status \<and> status < 300 then Sent 200 data
          else (case upstream_error_message data of
                  Inl e \<Rightarrow> Rejected e
                | Inr m \<Rightarrow> Sent status (JObj [(''error'', m), (''details'', data)]))
      | NoResponse m \<Rightarrow> Sent 500 (JObj [(''error'', JStr msg_unreachable)])
      | NotSent m \<Rightarrow> Sent 500 (JObj [(''error'', JStr (msg_config_error_prefix @ m))]))"
  using assms
  by (auto simp add: endpoint_v2_def recognize_v2_def split: sum.splits if_splits)

text \<open>A request with a URL and no file reaches the upstream with the URL alone.\<close>

lemma url_request_outbound:
  "u \<noteq> [] \<Longrightarrow>
   outbound (endpoint_v2 axios_post \<lparr>file_part = None, text_fields = [''url'' \<mapsto> Text u]\<rparr>)
     = [[FieldPart ''url'' u]]"
  by (simp add: endpoint_v2_def upload_single_def recognize_v2_def build_form_v2_def
      attach_image_def append_defined_def then_append_def)

section \<open>The claims\<close>

text \<open>
  C1. When the upstream answers with a failure status and a JSON object whose
  \<^verbatim>\<open>code\<close> is the number 17701, the second variant replies with the upstream's
  status, the image-too-large text as \<^verbatim>\<open>error\<close> and the upstream body as
  \<^verbatim>\<open>details\<close>.
\<close>

theorem code_17701_image_too_large:
  assumes "outbound (endpoint_v2 axios_post r) = [form]"
    and "axios_post form = Responded status (JObj kvs)"
    and "\<not> (200 \<le> status \<and> status < 300)"
    and "map_of kvs ''code'' = Some (JNum 17701)"
  shows "reply (endpoint_v2 axios_post r) =
           Sent status (JObj [(''error'', JStr msg_17701), (''details'', JObj kvs)])"
  using assms(2-4) endpoint_v2_called [OF assms(1)]
  by (auto simp add: upstream_error_message_def switch_code_def)

theorem code_17701_image_too_large_witness:
  "outbound (endpoint_v2
      (upstream_always (Responded 413 (JObj [(''code'', JNum 17701), (''message'', JStr ''too big'')])))
      \<lparr>file_part = None, text_fields = [''url'' \<mapsto> Text ''https://example.com/a.png'']\<rparr>)
     = [[FieldPart ''url'' ''https://example.com/a.png'']]
   \<and> upstream_always (Responded 413 (JObj [(''code'', JNum 17701), (''message'', JStr ''too big'')]))
        [FieldPart ''url'' ''https://example.com/a.png'']
     = Responded 413 (JObj [(''code'', JNum 17701), (''message'', JStr ''too big'')])
   \<and> \<not> (200 \<le> (413::nat) \<and> (413::nat) < 300)
   \<and> map_of [(''code'', JNum 17701), (''message'', JStr ''too big'')] ''code'' = Some (JNum 17701)
   \<and> reply (endpoint_v2
      (upstream_always (Responded 413 (JObj [(''code'', JNum 17701), (''message'', JStr ''too big'')])))
      \<lparr>file_part = None, text_fields = [''url'' \<mapsto> Text ''https://example.com/a.png'']\<rparr>)
     = Sent 413 (JObj [(''error'', JStr msg_17701),
         (''details'', JObj [(''code'', JNum 17701), (''message'', JStr ''too big'')])])"
proof -
  have call: "outbound (endpoint_v2
      (upstream_always (Responded 413 (JObj [(''code'', JNum 17701), (''message'', JStr ''too big'')])))
      \<lparr>file_part = None, text_fields = [''url'' \<mapsto> Text ''https://example.com/a.png'']\<rparr>)
     = [[FieldPart ''url'' ''https://example.com/a.png'']]"
    by (rule url_request_outbound) simp
  show ?thesis
    using call code_17701_image_too_large
      [OF call, of 413 "[(''code'', JNum 17701), (''message'', JStr ''too big'')]"]
    by (simp add: upstream_always_def)
qed

text \<open>
  C2, as amended. When the upstream answers with a failure status and a JSON object
  whose \<^verbatim>\<open>code\<close> is a number outside the table, \<^verbatim>\<open>error\<close> is the body's
  \<^verbatim>\<open>message\<close> when that is present and truthy, and the generic text otherwise.
\<close>

theorem unknown_code_falls_back:
  assumes "outbound (endpoint_v2 axios_post r) = [form]"
    and "axios_post form = Responded status (JObj kvs)"
    and "\<not> (200 \<le> status \<and> status < 300)"
    and "map_of kvs ''code'' = Some (JNum c)"
    and "c \<notin> {17701, 17702, 17703, 17704, 17705, 17706, 17707, 17708, 17722, 17728, 17731}"
  shows "reply (endpoint_v2 axios_post r) =
           Sent status (JObj [(''error'',
               (case map_of kvs ''message'' of
                  None \<Rightarrow> JStr msg_service_error
                | Some m \<Rightarrow> if truthy m then m else JStr msg_service_error)),
             (''details'', JObj kvs)])"
  using assms(2-5) endpoint_v2_called [OF assms(1)]
  by (auto simp add: upstream_error_message_def switch_code_def message_or_default_def js_or_def
      split: option.splits)

theorem unknown_code_falls_back_witness:
  "outbound (endpoint_v2
      (upstream_always (Responded 400 (JObj [(''code'', JNum 99999), (''message'', JStr ''quota'')])))
      \<lparr>file_part = None, text_fields = [''url'' \<mapsto> Text ''https://example.com/a.png'']\<rparr>)
     = [[FieldPart ''url'' ''https://example.com/a.png'']]
   \<and> upstream_always (Responded 400 (JObj [(''code'', JNum 99999), (''message'', JStr ''quota'')]))
        [FieldPart ''url'' ''https://example.com/a.png'']
     = Responded 400 (JObj [(''code'', JNum 99999), (''message'', JStr ''quota'')])
   \<and> \<not> (200 \<le> (400::nat) \<and> (400::nat) < 300)
   \<and> map_of [(''code'', JNum 99999), (''message'', JStr ''quota'')] ''code'' = Some (JNum 99999)
   \<and> (99999::rat) \<notin> {17701, 17702, 17703, 17704, 17705, 17706, 17707, 17708, 17722, 17728, 17731}
   \<and> reply (endpoint_v2
      (upstream_always (Responded 400 (JObj [(''code'', JNum 99999), (''message'', JStr ''quota'')])))
      \<lparr>file_part = None, text_fields = [''url'' \<mapsto> Text ''https://example.com/a.png'']\<rparr>)
     = Sent 400 (JObj [(''error'', JStr ''quota''),
         (''details'', JObj [(''code'', JNum 99999), (''message'', JStr ''quota'')])])"
proof -
  have call: "outbound (endpoint_v2
      (upstream_always (Responded 400 (JObj [(''code'', JNum 99999), (''message'', JStr ''quota'')])))
      \<lparr>file_part = None, text_fields = [''url'' \<mapsto> Text ''https://example.com/a.png'']\<rparr>)
     = [[FieldPart ''url'' ''https://example.com/a.png'']]"
    by (rule url_request_outbound) simp
  show ?thesis
    using call unknown_code_falls_back
      [OF call, of 400 "[(''code'', JNum 99999), (''message'', JStr ''quota'')]" 99999]
    by (simp add: upstream_always_def)
qed

text \<open>
  C2, as stated, fails when the \<^verbatim>\<open>message\<close> is present and empty: the reply carries
  the generic text, not the empty message.
\<close>

theorem unknown_code_empty_message_counterexample:
  "map_of [(''code'', JNum 99999), (''message'', JStr [])] ''message'' = Some (JStr [])
   \<and> reply (endpoint_v2
      (upstream_always (Responded 400 (JObj [(''code'', JNum 99999), (''message'', JStr [])])))
      \<lparr>file_part = None, text_fields = [''url'' \<mapsto> Text ''https://example.com/a.png'']\<rparr>)
     = Sent 400 (JObj [(''error'', JStr msg_service_error),
         (''details'', JObj [(''code'', JNum 99999), (''message'', JStr [])])])
   \<and> JStr msg_service_error \<noteq> JStr []"
  by (simp add: endpoint_v2_def upload_single_def recognize_v2_def build_form_v2_def
      attach_image_def append_defined_def then_append_def upstream_always_def upstream_error_message_def
      switch_code_def message_or_default_def js_or_def msg_service_error_def)







text \<open>
  C5, as amended. When the form of a validated request is sent, it has each of the
  variant's own options exactly when the option is defined, with the string it has, and
  no part twice: the second variant forwards \<^verbatim>\<open>is_multi\<close>, \<^verbatim>\<open>model\<close> and
  \<^verbatim>\<open>ai_detect\<close>, the first variant \<^verbatim>\<open>use_correction\<close>. Apart from the
  \<^verbatim>\<open>url\<close> of the second variant, the form has no other field. An option that is no
  plain string (its name came with brackets, or twice) makes \<^verbatim>\<open>form.append\<close> throw,
  and no form is sent.
\<close>

theorem defined_options_forwarded:
  "(outbound (endpoint_v2 axios_post r) = [form] \<longrightarrow>
      distinct (map part_name form) \<and>
      (\<forall>k v. k \<noteq> ''url'' \<longrightarrow>
         (FieldPart k v \<in> set form \<longleftrightarrow>
            (k = ''is_multi'' \<or> k = ''model'' \<or> k = ''ai_detect'')
            \<and> text_fields r k = Some (Text v))))
   \<and> (outbound (endpoint_v1 to_string axios_post r') = [form'] \<longrightarrow>
      distinct (map part_name form') \<and>
      (\<forall>k v. FieldPart k v \<in> set form' \<longleftrightarrow>
            k = ''use_correction'' \<and> text_fields r' k = Some (Text v)))
   \<and> ((k' = ''is_multi'' \<or> k' = ''model'' \<or> k' = ''ai_detect'') \<longrightarrow>
        text_fields q k' = Some (Structured m) \<longrightarrow>
        outbound (endpoint_v2 axios_post q) = [])
   \<and> (text_fields q' ''use_correction'' = Some (Structured m') \<longrightarrow>
        outbound (endpoint_v1 to_string axios_post q') = [])"
proof (intro conjI impI)
  assume "outbound (endpoint_v2 axios_post r) = [form]"
  then obtain req where req: "upload_single r = Inr req" "build_form_v2 req = Inr form"
    using endpoint_v2_outbound by blast
  have body: "req_body req = text_fields r"
    using req(1) by (rule upload_single_body)
  show "distinct (map part_name form)"
    using req(2) by (rule distinct_build_form_v2)
  show "\<forall>k v. k \<noteq> ''url'' \<longrightarrow>
         (FieldPart k v \<in> set form \<longleftrightarrow>
            (k = ''is_multi'' \<or> k = ''model'' \<or> k = ''ai_detect'')
            \<and> text_fields r k = Some (Text v))"
    unfolding fields_build_form_v2 [OF req(2)] body by blast
next
  assume "outbound (endpoint_v1 to_string axios_post r') = [form']"
  then obtain req f where req: "upload_single r' = Inr req" "build_form_v1 f req = Inr form'"
    using endpoint_v1_outbound by blast
  have body: "req_body req = text_fields r'"
    using req(1) by (rule upload_single_body)
  show "distinct (map part_name form')"
    using req(2) by (rule distinct_build_form_v1)
  show "\<forall>k v. FieldPart k v \<in> set form' \<longleftrightarrow>
            k = ''use_correction'' \<and> text_fields r' k = Some (Text v)"
    unfolding fields_build_form_v1 [OF req(2)] body by blast
next
  assume k': "k' = ''is_multi'' \<or> k' = ''model'' \<or> k' = ''ai_detect''"
    and bad: "text_fields q k' = Some (Structured m)"
  show "outbound (endpoint_v2 axios_post q) = []"
  proof (rule ccontr)
    assume "outbound (endpoint_v2 axios_post q) \<noteq> []"
    then obtain g where "outbound (endpoint_v2 axios_post q) = [g]"
      by (auto simp add: endpoint_v2_def recognize_v2_def split: sum.splits if_splits)
    then obtain req where req: "upload_single q = Inr req" "build_form_v2 req = Inr g"
      using endpoint_v2_outbound by blast
    have body: "req_body req = text_fields q"
      using req(1) by (rule upload_single_body)
    obtain a b c d where parts:
      "append_defined ''is_multi'' (req_body req ''is_multi'') = Inr b"
      "append_defined ''model'' (req_body req ''model'') = Inr c"
      "append_defined ''ai_detect'' (req_body req ''ai_detect'') = Inr d"
      using req(2) by (rule build_form_v2_Inr)
    show False
      using k' bad parts unfolding body append_defined_Inr by auto
  qed
next
  assume bad: "text_fields q' ''use_correction'' = Some (Structured m')"
  show "outbound (endpoint_v1 to_string axios_post q') = []"
  proof (rule ccontr)
    assume "outbound (endpoint_v1 to_string axios_post q') \<noteq> []"
    then obtain g where "outbound (endpoint_v1 to_string axios_post q') = [g]"
      by (auto simp add: endpoint_v1_def recognize_v1_def split: sum.splits option.splits)
    then obtain req f where req: "upload_single q' = Inr req" "build_form_v1 f req = Inr g"
      using endpoint_v1_outbound by blast
    have body: "req_body req = text_fields q'"
      using req(1) by (rule upload_single_body)
    obtain b where parts:
      "append_defined ''use_correction'' (req_body req ''use_correction'') = Inr b"
      using req(2) by (rule build_form_v1_Inr)
    show False
      using bad parts unfolding body append_defined_Inr by auto
  qed
qed

theorem defined_options_forwarded_witness:
  "outbound (endpoint_v2 (upstream_always (NoResponse ''timeout''))
      \<lparr>file_part = Some \<lparr>originalname = ''a.png'', mimetype = ''image/png'', buffer = [137, 80, 78, 71]\<rparr>,
       text_fields = [''model'' \<mapsto> Text ''anime'', ''use_correction'' \<mapsto> Text ''1'']\<rparr>)
     = [[FilePart ''file'' [137, 80, 78, 71] ''a.png'' ''image/png'', FieldPart ''model'' ''anime'']]
   \<and> outbound (endpoint_v1 (\<lambda>v. []) (upstream_always (NoResponse ''timeout''))
      \<lparr>file_part = Some \<lparr>originalname = ''a.png'', mimetype = ''image/png'', buffer = [137, 80, 78, 71]\<rparr>,
       text_fields = [''model'' \<mapsto> Text ''anime'', ''use_correction'' \<mapsto> Text ''1'']\<rparr>)
     = [[FilePart ''file'' [137, 80, 78, 71] ''a.png'' ''image/png'', FieldPart ''use_correction'' ''1'']]
   \<and> FieldPart ''model'' ''anime''
       \<in> set [FilePart ''file'' [137, 80, 78, 71] ''a.png'' ''image/png'', FieldPart ''model'' ''anime'']
   \<and> (\<forall>v. FieldPart ''is_multi'' v
       \<notin> set [FilePart ''file'' [137, 80, 78, 71] ''a.png'' ''image/png'', FieldPart ''model'' ''anime''])
   \<and> FieldPart ''use_correction'' ''1''
       \<in> set [FilePart ''file'' [137, 80, 78, 71] ''a.png'' ''image/png'', FieldPart ''use_correction'' ''1'']
   \<and> text_fields \<lparr>file_part = None,
         text_fields = [''url'' \<mapsto> Text ''https://example.com/a.png'',
                        ''model'' \<mapsto> Structured ''Arrays are not supported.'']\<rparr> ''model''
       = Some (Structured ''Arrays are not supported.'')
   \<and> outbound (endpoint_v2 (upstream_always (NoResponse ''timeout''))
        \<lparr>file_part = None,
         text_fields = [''url'' \<mapsto> Text ''https://example.com/a.png'',
                        ''model'' \<mapsto> Structured ''Arrays are not supported.'']\<rparr>) = []
   \<and> outbound (endpoint_v1 (\<lambda>v. []) (upstream_always (NoResponse ''timeout''))
        \<lparr>file_part = Some \<lparr>originalname = ''a.png'', mimetype = ''image/png'', buffer = [137, 80, 78, 71]\<rparr>,
         text_fields = [''use_correction'' \<mapsto> Structured ''Arrays are not supported.'']\<rparr>) = []"
proof -
  have v2: "outbound (endpoint_v2 (upstream_always (NoResponse ''timeout''))
      \<lparr>file_part = Some \<lparr>originalname = ''a.png'', mimetype = ''image/png'', buffer = [137, 80, 78, 71]\<rparr>,
       text_fields = [''model'' \<mapsto> Text ''anime'', ''use_correction'' \<mapsto> Text ''1'']\<rparr>)
     = [[FilePart ''file'' [137, 80, 78, 71] ''a.png'' ''image/png'', FieldPart ''model'' ''anime'']]"
    by (simp add: endpoint_v2_def upload_single_def fileFilter_def startsWith_def fileSize_def
        recognize_v2_def build_form_v2_def attach_image_def append_defined_def then_append_def)
  have v1: "outbound (endpoint_v1 (\<lambda>v. []) (upstream_always (NoResponse ''timeout''))
      \<lparr>file_part = Some \<lparr>originalname = ''a.png'', mimetype = ''image/png'', buffer = [137, 80, 78, 71]\<rparr>,
       text_fields = [''model'' \<mapsto> Text ''anime'', ''use_correction'' \<mapsto> Text ''1'']\<rparr>)
     = [[FilePart ''file'' [137, 80, 78, 71] ''a.png'' ''image/png'', FieldPart ''use_correction'' ''1'']]"
    by (simp add: endpoint_v1_def upload_single_def fileFilter_def startsWith_def fileSize_def
        recognize_v1_def build_form_v1_def append_defined_def then_append_def)
  show ?thesis
    using v1 v2 defined_options_forwarded
      [of "upstream_always (NoResponse ''timeout'')"
          "\<lparr>file_part = Some \<lparr>originalname = ''a.png'', mimetype = ''image/png'', buffer = [137, 80, 78, 71]\<rparr>,
            text_fields = [''model'' \<mapsto> Text ''anime'', ''use_correction'' \<mapsto> Text ''1'']\<rparr>"
          "[FilePart ''file'' [137, 80, 78, 71] ''a.png'' ''image/png'', FieldPart ''model'' ''anime'']"
          "\<lambda>v. []"
          "\<lparr>file_part = Some \<lparr>originalname = ''a.png'', mimetype = ''image/png'', buffer = [137, 80, 78, 71]\<rparr>,
            text_fields = [''model'' \<mapsto> Text ''anime'', ''use_correction'' \<mapsto> Text ''1'']\<rparr>"
          "[FilePart ''file'' [137, 80, 78, 71] ''a.png'' ''image/png'', FieldPart ''use_correction'' ''1'']"
          "''model''"
          "\<lparr>file_part = None,
            text_fields = [''url'' \<mapsto> Text ''https://example.com/a.png'',
                           ''model'' \<mapsto> Structured ''Arrays are not supported.'']\<rparr>"
          "''Arrays are not supported.''"
          "\<lparr>file_part = Some \<lparr>originalname = ''a.png'', mimetype = ''image/png'', buffer = [137, 80, 78, 71]\<rparr>,
            text_fields = [''use_correction'' \<mapsto> Structured ''Arrays are not supported.'']\<rparr>"
          "''Arrays are not supported.''"]
    by simp
qed

text \<open>
  C5, as stated, fails on the second variant: a defined \<^verbatim>\<open>use_correction\<close> is not in
  its form.
\<close>

theorem use_correction_not_forwarded_counterexample:
  "text_fields \<lparr>file_part = None,
      text_fields = [''url'' \<mapsto> Text ''https://example.com/a.png'', ''use_correction'' \<mapsto> Text ''1'']\<rparr>
      ''use_correction'' = Some (Text ''1'')
   \<and> outbound (endpoint_v2 (upstream_always (NoResponse ''timeout''))
      \<lparr>file_part = None,
       text_fields = [''url'' \<mapsto> Text ''https://example.com/a.png'', ''use_correction'' \<mapsto> Text ''1'']\<rparr>)
     = [[FieldPart ''url'' ''https://example.com/a.png'']]"
  by (simp add: endpoint_v2_def upload_single_def recognize_v2_def build_form_v2_def
      attach_image_def append_defined_def then_append_def)

text \<open>
  C6: what the code does. A file with a filename whose mimetype does not start with
  \<^verbatim>\<open>image/\<close> is rejected before any outbound call, but the filter's error is no
  MulterError, and the error middleware answers it with status 500 and the
  internal-error text.
\<close>

theorem non_image_file_internal_error:
  assumes "file_part r = Some f" and "originalname f \<noteq> []"
    and "\<not> startsWith (mimetype f) ''image/''"
  shows "endpoint_v2 axios_post r =
           \<lparr>reply = Sent 500 (JObj [(''error'', JStr msg_internal_error)]), outbound = []\<rparr>"
  using assms
  by (simp add: endpoint_v2_def upload_single_def fileFilter_def error_middleware_def)

theorem non_image_file_internal_error_witness:
  "file_part \<lparr>file_part = Some \<lparr>originalname = ''notes.txt'', mimetype = ''text/plain'', buffer = [104, 105]\<rparr>,
       text_fields = Map.empty\<rparr>
     = Some \<lparr>originalname = ''notes.txt'', mimetype = ''text/plain'', buffer = [104, 105]\<rparr>
   \<and> originalname \<lparr>originalname = ''notes.txt'', mimetype = ''text/plain'', buffer = [104, 105]\<rparr> \<noteq> []
   \<and> \<not> startsWith (mimetype \<lparr>originalname = ''notes.txt'', mimetype = ''text/plain'', buffer = [104, 105]\<rparr>) ''image/''
   \<and> endpoint_v2 (upstream_always (Responded 200 JNull))
      \<lparr>file_part = Some \<lparr>originalname = ''notes.txt'', mimetype = ''text/plain'', buffer = [104, 105]\<rparr>,
       text_fields = Map.empty\<rparr>
     = \<lparr>reply = Sent 500 (JObj [(''error'', JStr msg_internal_error)]), outbound = []\<rparr>"
  using non_image_file_internal_error
    [of "\<lparr>file_part = Some \<lparr>originalname = ''notes.txt'', mimetype = ''text/plain'', buffer = [104, 105]\<rparr>,
          text_fields = Map.empty\<rparr>"
        "\<lparr>originalname = ''notes.txt'', mimetype = ''text/plain'', buffer = [104, 105]\<rparr>"
        "upstream_always (Responded 200 JNull)"]
  by (simp add: startsWith_def)










text \<open>
  C10, as amended. When the upstream answers with a failure status and a JSON object
  whose \<^verbatim>\<open>code\<close> is falsy (the number 0, for one), the switch is not entered:
  \<^verbatim>\<open>error\<close> is the body's \<^verbatim>\<open>message\<close> when that is present and truthy, and the
  generic text otherwise. No case of the switch has a falsy code.
\<close>

theorem falsy_code_skips_table:
  assumes "outbound (endpoint_v2 axios_post r) = [form]"
    and "axios_post form = Responded status (JObj kvs)"
    and "\<not> (200 \<le> status \<and> status < 300)"
    and "map_of kvs ''code'' = Some c"
    and "\<not> truthy c"
  shows "reply (endpoint_v2 axios_post r) =
           Sent status (JObj [(''error'',
               (case map_of kvs ''message'' of
                  None \<Rightarrow> JStr msg_service_error
                | Some m \<Rightarrow> if truthy m then m else JStr msg_service_error)),
             (''details'', JObj kvs)])
         \<and> switch_code c = None"
proof -
  have "switch_code c = None"
    using assms(5) by (auto simp add: switch_code_def)
  moreover have "reply (endpoint_v2 axios_post r) =
           Sent status (JObj [(''error'',
               (case map_of kvs ''message'' of
                  None \<Rightarrow> JStr msg_service_error
                | Some m \<Rightarrow> if truthy m then m else JStr msg_service_error)),
             (''details'', JObj kvs)])"
    using assms(2-5) endpoint_v2_called [OF assms(1)]
    by (auto simp add: upstream_error_message_def message_or_default_def js_or_def
        split: option.splits)
  ultimately show ?thesis by simp
qed

theorem falsy_code_skips_table_witness:
  "outbound (endpoint_v2
      (upstream_always (Responded 500 (JObj [(''code'', JNum 0), (''message'', JStr ''rate limited'')])))
      \<lparr>file_part = None, text_fields = [''url'' \<mapsto> Text ''https://example.com/a.png'']\<rparr>)
     = [[FieldPart ''url'' ''https://example.com/a.png'']]
   \<and> upstream_always (Responded 500 (JObj [(''code'', JNum 0), (''message'', JStr ''rate limited'')]))
        [FieldPart ''url'' ''https://example.com/a.png'']
     = Responded 500 (JObj [(''code'', JNum 0), (''message'', JStr ''rate limited'')])
   \<and> \<not> (200 \<le> (500::nat) \<and> (500::nat) < 300)
   \<and> map_of [(''code'', JNum 0), (''message'', JStr ''rate limited'')] ''code'' = Some (JNum 0)
   \<and> \<not> truthy (JNum 0)
   \<and> reply (endpoint_v2
      (upstream_always (Responded 500 (JObj [(''code'', JNum 0), (''message'', JStr ''rate limited'')])))
      \<lparr>file_part = None, text_fields = [''url'' \<mapsto> Text ''https://example.com/a.png'']\<rparr>)
     = Sent 500 (JObj [(''error'', JStr ''rate limited''),
         (''details'', JObj [(''code'', JNum 0), (''message'', JStr ''rate limited'')])])
   \<and> switch_code (JNum 0) = None"
proof -
  have call: "outbound (endpoint_v2
      (upstream_always (Responded 500 (JObj [(''code'', JNum 0), (''message'', JStr ''rate limited'')])))
      \<lparr>file_part = None, text_fields = [''url'' \<mapsto> Text ''https://example.com/a.png'']\<rparr>)
     = [[FieldPart ''url'' ''https://example.com/a.png'']]"
    by (rule url_request_outbound) simp
  show ?thesis
    using call falsy_code_skips_table
      [OF call, of 500 "[(''code'', JNum 0), (''message'', JStr ''rate limited'')]" "JNum 0"]
    by (simp add: upstream_always_def)
qed

text \<open>
  C10, as stated, fails when the code is 0 and the \<^verbatim>\<open>message\<close> is present and
  empty: the reply carries the generic text, not the empty message.
\<close>

theorem falsy_code_empty_message_counterexample:
  "map_of [(''code'', JNum 0), (''message'', JStr [])] ''message'' = Some (JStr [])
   \<and> reply (endpoint_v2
      (upstream_always (Responded 500 (JObj [(''code'', JNum 0), (''message'', JStr [])])))
      \<lparr>file_part = None, text_fields = [''url'' \<mapsto> Text ''https://example.com/a.png'']\<rparr>)
     = Sent 500 (JObj [(''error'', JStr msg_service_error),
         (''details'', JObj [(''code'', JNum 0), (''message'', JStr [])])])
   \<and> JStr msg_service_error \<noteq> JStr []"
  by (simp add: endpoint_v2_def upload_single_def recognize_v2_def build_form_v2_def
      attach_image_def append_defined_def then_append_def upstream_always_def upstream_error_message_def
      message_or_default_def js_or_def msg_service_error_def)

end
